theory Spec2Isabelle
  imports Complex_Main
begin

section \<open>The configuration validator of scripts/validate_config.py\<close>

text \<open>
  The validator walks a parsed TOML document and appends issues to \<open>self.issues\<close>.
  The model keeps that shape: a document value is a tagged union of the Python values
  the TOML parser returns, every validation method is a step on the issue list, and an
  exception Python would raise on a value of an unexpected type is the \<open>Inl\<close> branch of
  the step's result.
\<close>

subsection \<open>Document values\<close>

text \<open>
  A Python float: a finite value (kept as the exact rational it denotes), the two
  infinities and NaN, which the TOML parser accepts as \<open>inf\<close> and \<open>nan\<close>.
\<close>

datatype pyfloat = Finite rat | PosInf | NegInf | NaN

text \<open>
  The values \<open>toml.load\<close> produces. A dict is an association list in insertion order
  (iteration follows it, lookup takes the entry of a key); \<open>TDatetime\<close> stands for the
  date and time objects, of which the validator only needs that they are none of the
  other types.
\<close>

datatype toml =
    TStr string
  | TInt int
  | TFloat pyfloat
  | TBool bool
  | TDatetime string
  | TList "toml list"
  | TDict "(string \<times> toml) list"

type_synonym config = "(string \<times> toml) list"

subsection \<open>Issues\<close>

datatype ValidationLevel = ERROR | WARNING | INFO

text \<open>
  A message is the f-string of the source with its holes kept apart: literal text, the
  \<open>str()\<close> of a document value, and the \<open>', '.join\<close> of a set of names (whose order is
  the set's iteration order, which Python does not fix).
\<close>

datatype frag = Lit string | Hole toml | Join "string set"

record ValidationIssue =
  level :: ValidationLevel
  path :: string
  message :: "frag list"

datatype pyerror = TypeError | AttributeError | KeyError | OSError

text \<open>A step of a validation method: the issue list before, the issue list after or
  the exception raised.\<close>

type_synonym step = "ValidationIssue list \<Rightarrow> pyerror + ValidationIssue list"

definition skip :: step where
  "skip issues = Inr issues"

definition then_step :: "step \<Rightarrow> step \<Rightarrow> step" where
  "then_step f g issues = (case f issues of Inl e \<Rightarrow> Inl e | Inr issues' \<Rightarrow> g issues')"

text \<open>The statements of a method body, run in order.\<close>

fun do_all :: "step list \<Rightarrow> step" where
  "do_all [] = skip"
| "do_all (f # fs) = then_step f (do_all fs)"

text \<open>An expression that may raise, and the statement that uses its value.\<close>

definition bind_val :: "pyerror + 'a \<Rightarrow> ('a \<Rightarrow> step) \<Rightarrow> step" where
  "bind_val r k issues = (case r of Inl e \<Rightarrow> Inl e | Inr x \<Rightarrow> k x issues)"

definition when_true :: "bool \<Rightarrow> step \<Rightarrow> step" where
  "when_true b f = (if b then f else skip)"

fun for_each :: "'a list \<Rightarrow> ('a \<Rightarrow> step) \<Rightarrow> step" where
  "for_each [] body = skip"
| "for_each (x # xs) body = then_step (body x) (for_each xs body)"

definition add_error :: "string \<Rightarrow> frag list \<Rightarrow> step" where
  "add_error p m issues = Inr (issues @ [\<lparr>level = ERROR, path = p, message = m\<rparr>])"

definition add_warning :: "string \<Rightarrow> frag list \<Rightarrow> step" where
  "add_warning p m issues = Inr (issues @ [\<lparr>level = WARNING, path = p, message = m\<rparr>])"

definition add_info :: "string \<Rightarrow> frag list \<Rightarrow> step" where
  "add_info p m issues = Inr (issues @ [\<lparr>level = INFO, path = p, message = m\<rparr>])"

subsection \<open>Python operators on document values\<close>

text \<open>\<open>s.startswith(p)\<close> and \<open>sub in s\<close> on strings.\<close>

definition startswith :: "string \<Rightarrow> string \<Rightarrow> bool" where
  "startswith s p = (take (length p) s = p)"

fun str_contains :: "string \<Rightarrow> string \<Rightarrow> bool" where
  "str_contains sub [] = (sub = [])"
| "str_contains sub (c # cs) = (startswith (c # cs) sub \<or> str_contains sub cs)"

text \<open>
  \<open>key in obj\<close> for a string key: a key of a dict, an element of a list, a substring of
  a string; the other values are not iterable.
\<close>

fun py_in :: "string \<Rightarrow> toml \<Rightarrow> pyerror + bool" where
  "py_in key (TDict kvs) = Inr (key \<in> set (map fst kvs))"
| "py_in key (TList xs) = Inr (TStr key \<in> set xs)"
| "py_in key (TStr s) = Inr (str_contains key s)"
| "py_in key _ = Inl TypeError"

text \<open>\<open>obj[key]\<close> for a string key: only a dict takes one.\<close>

fun py_getitem :: "toml \<Rightarrow> string \<Rightarrow> pyerror + toml" where
  "py_getitem (TDict kvs) key = (case map_of kvs key of None \<Rightarrow> Inl KeyError | Some v \<Rightarrow> Inr v)"
| "py_getitem _ key = Inl TypeError"

text \<open>\<open>obj.get(key)\<close>: \<open>None\<close> of the result is Python's \<open>None\<close>; only a dict has the method.\<close>

fun py_get :: "toml \<Rightarrow> string \<Rightarrow> pyerror + toml option" where
  "py_get (TDict kvs) key = Inr (map_of kvs key)"
| "py_get _ key = Inl AttributeError"

text \<open>\<open>obj.items()\<close>.\<close>

fun py_items :: "toml \<Rightarrow> pyerror + (string \<times> toml) list" where
  "py_items (TDict kvs) = Inr kvs"
| "py_items _ = Inl AttributeError"

text \<open>\<open>v in names\<close> for a set of strings: the value is hashed first, and lists and dicts
  are unhashable.\<close>

fun py_in_set :: "toml \<Rightarrow> string set \<Rightarrow> pyerror + bool" where
  "py_in_set (TStr s) names = Inr (s \<in> names)"
| "py_in_set (TList xs) names = Inl TypeError"
| "py_in_set (TDict kvs) names = Inl TypeError"
| "py_in_set _ names = Inr False"

text \<open>Truth value of a document value (\<open>if v:\<close>).\<close>

fun truthy :: "toml \<Rightarrow> bool" where
  "truthy (TStr s) = (s \<noteq> [])"
| "truthy (TInt n) = (n \<noteq> 0)"
| "truthy (TFloat x) = (x \<noteq> Finite 0)"
| "truthy (TBool b) = b"
| "truthy (TDatetime d) = True"
| "truthy (TList xs) = (xs \<noteq> [])"
| "truthy (TDict kvs) = (kvs \<noteq> [])"

text \<open>\<open>isinstance(v, int)\<close> with the integer the value is: \<open>bool\<close> is a subclass of
  \<open>int\<close>, with \<open>True == 1\<close> and \<open>False == 0\<close>.\<close>

fun as_int :: "toml \<Rightarrow> int option" where
  "as_int (TInt n) = Some n"
| "as_int (TBool b) = Some (if b then 1 else 0)"
| "as_int _ = None"

text \<open>\<open>isinstance(v, (int, float))\<close> with the number the value is; an integer compares
  with a float by its exact value.\<close>

fun as_number :: "toml \<Rightarrow> pyfloat option" where
  "as_number (TInt n) = Some (Finite (of_int n))"
| "as_number (TBool b) = Some (Finite (if b then 1 else 0))"
| "as_number (TFloat x) = Some x"
| "as_number _ = None"

fun isinstance_bool :: "toml \<Rightarrow> bool" where
  "isinstance_bool (TBool b) = True"
| "isinstance_bool _ = False"

fun isinstance_str :: "toml \<Rightarrow> bool" where
  "isinstance_str (TStr s) = True"
| "isinstance_str _ = False"

text \<open>\<open>x < y\<close> on floats: NaN is below and above nothing.\<close>

fun float_less :: "pyfloat \<Rightarrow> pyfloat \<Rightarrow> bool" where
  "float_less NaN y = False"
| "float_less x NaN = False"
| "float_less x NegInf = False"
| "float_less PosInf y = False"
| "float_less NegInf y = True"
| "float_less x PosInf = True"
| "float_less (Finite a) (Finite b) = (a < b)"

subsection \<open>Helper methods of ConfigValidator\<close>

definition validate_integer_range :: "string \<Rightarrow> toml \<Rightarrow> int \<Rightarrow> int \<Rightarrow> step" where
  "validate_integer_range p v min_val max_val =
     (case as_int v of
        None \<Rightarrow> add_error p [Lit ''Must be an integer'']
      | Some n \<Rightarrow>
          if n < min_val \<or> n > max_val
          then add_error p [Lit ''Must be between '', Hole (TInt min_val), Lit '' and '',
                            Hole (TInt max_val)]
          else skip)"

definition validate_float_range :: "string \<Rightarrow> toml \<Rightarrow> pyfloat \<Rightarrow> pyfloat \<Rightarrow> step" where
  "validate_float_range p v min_val max_val =
     (case as_number v of
        None \<Rightarrow> add_error p [Lit ''Must be a number'']
      | Some x \<Rightarrow>
          if float_less x min_val \<or> float_less max_val x
          then add_error p [Lit ''Must be between '', Hole (TFloat min_val), Lit '' and '',
                            Hole (TFloat max_val)]
          else skip)"

definition validate_boolean :: "string \<Rightarrow> toml \<Rightarrow> step" where
  "validate_boolean p v =
     (if \<not> isinstance_bool v then add_error p [Lit ''Must be true or false''] else skip)"

text \<open>\<open>url.startswith(("http://", "https://"))\<close>: a value that is not a string has no
  such method.\<close>

fun is_valid_url :: "toml \<Rightarrow> pyerror + bool" where
  "is_valid_url (TStr url) = Inr (startswith url ''http://'' \<or> startswith url ''https://'')"
| "is_valid_url _ = Inl AttributeError"

text \<open>
  \<open>is_valid_size(size)\<close> is \<open>bool(SIZE_PATTERN.match(str(size)))\<close>. The regular-expression
  engine and \<open>str()\<close> belong to the Python library, not to the validator: the result of
  the match on a value is the parameter \<open>size_pattern_match\<close>. The call raises nothing.
\<close>

definition is_valid_size :: "(toml \<Rightarrow> bool) \<Rightarrow> toml \<Rightarrow> bool" where
  "is_valid_size size_pattern_match sz = size_pattern_match sz"

subsection \<open>Class constants\<close>

definition VALID_MODELS :: "string set" where
  "VALID_MODELS = {''gemini-1.5-flash'', ''gemini-1.5-pro'', ''gemini-2.0-flash-exp'',
     ''gemini-pro'', ''gemini-pro-vision''}"

definition VALID_LOG_LEVELS :: "string set" where
  "VALID_LOG_LEVELS = {''error'', ''warn'', ''info'', ''debug'', ''trace''}"

definition VALID_LOG_FORMATS :: "string set" where
  "VALID_LOG_FORMATS = {''json'', ''pretty'', ''compact''}"

definition VALID_THEMES :: "string set" where
  "VALID_THEMES = {''default'', ''minimal'', ''solarized'', ''dracula''}"

definition VALID_SPINNER_STYLES :: "string set" where
  "VALID_SPINNER_STYLES = {''dots'', ''line'', ''simple''}"

text \<open>
  The source iterates over this set in the set's own order. The body of that loop treats
  every fragment alike (the warning it appends does not mention the fragment), so the
  order shows nowhere; the list has the fragments in the order the source writes them.
\<close>

definition DANGEROUS_COMMANDS :: "string list" where
  "DANGEROUS_COMMANDS = [''rm'', ''dd'', ''mkfs'', ''fdisk'', ''shred'', ''chmod'', ''chown'',
     ''>'', ''>>'', ''|'']"

text \<open>The float literals of the source: \<open>0.1\<close> is the double nearest to one tenth.\<close>

definition float_0_1 :: pyfloat where
  "float_0_1 = Finite (3602879701896397 / 36028797018963968)"

subsection \<open>Section methods\<close>

text \<open>\<open>if key in obj: body\<close>, and the common \<open>if key in obj: check(obj[key])\<close>.\<close>

definition if_in :: "string \<Rightarrow> toml \<Rightarrow> step \<Rightarrow> step" where
  "if_in key obj body = bind_val (py_in key obj) (\<lambda>present. when_true present body)"

definition check_item :: "toml \<Rightarrow> string \<Rightarrow> (toml \<Rightarrow> step) \<Rightarrow> step" where
  "check_item obj key check = if_in key obj (bind_val (py_getitem obj key) check)"

definition validate_api :: "toml \<Rightarrow> step" where
  "validate_api api = do_all
     [if_in ''api_key'' api
        (add_warning ''api.api_key''
           [Lit ''API key should not be stored in config file. Use GEMINI_API_KEY environment variable.'']),
      check_item api ''model'' (\<lambda>model.
        bind_val (py_in_set model VALID_MODELS) (\<lambda>known.
          when_true (\<not> known)
            (add_error ''api.model''
               [Lit ''Invalid model: '', Hole model, Lit ''. Valid models: '', Join VALID_MODELS]))),
      check_item api ''base_url'' (\<lambda>url.
        bind_val (is_valid_url url) (\<lambda>valid.
          when_true (\<not> valid) (add_error ''api.base_url'' [Lit ''Invalid URL format'']))),
      check_item api ''timeout'' (\<lambda>v. validate_integer_range ''api.timeout'' v 1 300),
      check_item api ''max_retries'' (\<lambda>v. validate_integer_range ''api.max_retries'' v 0 10),
      check_item api ''retry_delay'' (\<lambda>v.
        validate_float_range ''api.retry_delay'' v float_0_1 (Finite 60))]"

definition validate_repl :: "toml \<Rightarrow> step" where
  "validate_repl repl = do_all
     [check_item repl ''history_size'' (\<lambda>v.
        validate_integer_range ''repl.history_size'' v 0 100000),
      check_item repl ''auto_save_interval'' (\<lambda>v.
        validate_integer_range ''repl.auto_save_interval'' v 0 3600),
      for_each [''colored_prompt'', ''welcome_banner'', ''vi_mode'', ''multiline_mode'']
        (\<lambda>field. check_item repl field (validate_boolean (''repl.'' @ field)))]"

definition validate_logging :: "(toml \<Rightarrow> bool) \<Rightarrow> toml \<Rightarrow> step" where
  "validate_logging size_pattern_match logging = do_all
     [check_item logging ''level'' (\<lambda>lvl.
        bind_val (py_in_set lvl VALID_LOG_LEVELS) (\<lambda>known.
          when_true (\<not> known)
            (add_error ''logging.level''
               [Lit ''Invalid log level: '', Hole lvl, Lit ''. Valid levels: '',
                Join VALID_LOG_LEVELS]))),
      check_item logging ''format'' (\<lambda>fmt.
        bind_val (py_in_set fmt VALID_LOG_FORMATS) (\<lambda>known.
          when_true (\<not> known)
            (add_error ''logging.format''
               [Lit ''Invalid log format: '', Hole fmt, Lit ''. Valid formats: '',
                Join VALID_LOG_FORMATS]))),
      check_item logging ''max_file_size'' (\<lambda>sz.
        when_true (\<not> is_valid_size size_pattern_match sz)
          (add_error ''logging.max_file_size''
             [Lit ''Invalid size format. Use: 10MB, 1GB, etc.''])),
      check_item logging ''max_files'' (\<lambda>v.
        validate_integer_range ''logging.max_files'' v 1 100)]"

definition validate_tools_commands :: "toml \<Rightarrow> step" where
  "validate_tools_commands commands = do_all
     [check_item commands ''timeout'' (\<lambda>v.
        validate_integer_range ''tools.commands.timeout'' v 1 300),
      check_item commands ''allowed_commands'' (\<lambda>allowed.
        case allowed of
          TList cmds \<Rightarrow>
            for_each cmds (\<lambda>cmd.
              for_each DANGEROUS_COMMANDS (\<lambda>dangerous.
                if_in dangerous cmd
                  (add_warning ''tools.commands.allowed_commands''
                     [Lit ''Potentially dangerous command: '', Hole cmd])))
        | _ \<Rightarrow> add_error ''tools.commands.allowed_commands''
                 [Lit ''Must be an array of strings''])]"

definition extension_ok :: "toml \<Rightarrow> bool" where
  "extension_ok ext = (case ext of TStr s \<Rightarrow> startswith s ''.'' | _ \<Rightarrow> False)"

definition validate_tools :: "(toml \<Rightarrow> bool) \<Rightarrow> toml \<Rightarrow> step" where
  "validate_tools size_pattern_match tools = do_all
     [check_item tools ''max_file_size'' (\<lambda>sz.
        when_true (\<not> is_valid_size size_pattern_match sz)
          (add_error ''tools.max_file_size'' [Lit ''Invalid size format''])),
      check_item tools ''allowed_extensions'' (\<lambda>exts.
        case exts of
          TList es \<Rightarrow>
            for_each es (\<lambda>ext.
              when_true (\<not> extension_ok ext)
                (add_error ''tools.allowed_extensions''
                   [Lit ''Invalid extension format: '', Hole ext,
                    Lit (''. Must start with '' @ [CHR 0x27] @ ''.'' @ [CHR 0x27])]))
        | _ \<Rightarrow> add_error ''tools.allowed_extensions'' [Lit ''Must be an array of strings'']),
      check_item tools ''commands'' validate_tools_commands]"

definition validate_session :: "toml \<Rightarrow> step" where
  "validate_session session = do_all
     [check_item session ''max_context_size'' (\<lambda>v.
        validate_integer_range ''session.max_context_size'' v 1000 1000000),
      check_item session ''prune_strategy'' (\<lambda>strategy.
        bind_val (py_in_set strategy {''oldest'', ''summarize'', ''smart''}) (\<lambda>known.
          when_true (\<not> known)
            (add_error ''session.prune_strategy''
               [Lit ''Invalid strategy. Valid: '', Join {''oldest'', ''summarize'', ''smart''}])))]"

definition validate_ui :: "toml \<Rightarrow> step" where
  "validate_ui ui = do_all
     [check_item ui ''theme'' (\<lambda>theme.
        bind_val (py_in_set theme VALID_THEMES) (\<lambda>known.
          when_true (\<not> known)
            (add_warning ''ui.theme''
               [Lit ''Unknown theme: '', Hole theme, Lit ''. Valid themes: '', Join VALID_THEMES]))),
      check_item ui ''spinner_style'' (\<lambda>style.
        bind_val (py_in_set style VALID_SPINNER_STYLES) (\<lambda>known.
          when_true (\<not> known)
            (add_error ''ui.spinner_style''
               [Lit ''Invalid spinner style. Valid: '', Join VALID_SPINNER_STYLES]))),
      check_item ui ''max_width'' (\<lambda>v. validate_integer_range ''ui.max_width'' v 40 200)]"

definition validate_response :: "toml \<Rightarrow> step" where
  "validate_response response = do_all
     [check_item response ''temperature'' (\<lambda>v.
        validate_float_range ''response.temperature'' v (Finite 0) (Finite 2)),
      check_item response ''max_tokens'' (\<lambda>v.
        validate_integer_range ''response.max_tokens'' v 1 100000),
      check_item response ''format'' (\<lambda>fmt.
        bind_val (py_in_set fmt {''auto'', ''plain'', ''markdown'', ''json''}) (\<lambda>known.
          when_true (\<not> known)
            (add_error ''response.format''
               [Lit ''Invalid format. Valid: '',
                Join {''auto'', ''plain'', ''markdown'', ''json''}])))]"

definition validate_network :: "toml \<Rightarrow> step" where
  "validate_network network = do_all
     [check_item network ''proxy_url'' (\<lambda>url.
        bind_val (is_valid_url url) (\<lambda>valid.
          when_true (\<not> valid) (add_error ''network.proxy_url'' [Lit ''Invalid proxy URL'']))),
      check_item network ''timeout_connect'' (\<lambda>v.
        validate_integer_range ''network.timeout_connect'' v 1 60),
      check_item network ''timeout_read'' (\<lambda>v.
        validate_integer_range ''network.timeout_read'' v 1 300)]"

definition validate_security :: "toml \<Rightarrow> step" where
  "validate_security security =
     for_each [''mask_api_key'', ''audit_tools'', ''validate_ssl'', ''sanitize_logs'']
       (\<lambda>field. check_item security field (validate_boolean (''security.'' @ field)))"

definition validate_debug :: "toml \<Rightarrow> step" where
  "validate_debug debug = do_all
     [for_each [''show_raw_api_calls'', ''save_recordings'', ''verbose_errors'']
        (\<lambda>field. check_item debug field (validate_boolean (''debug.'' @ field))),
      check_item debug ''mock_delay_ms'' (\<lambda>v.
        validate_integer_range ''debug.mock_delay_ms'' v 0 5000)]"

definition validate_aliases :: "toml \<Rightarrow> step" where
  "validate_aliases aliases =
     bind_val (py_items aliases) (\<lambda>items.
       for_each items (\<lambda>(alias, command).
         when_true (\<not> isinstance_str command)
           (add_error (''aliases.'' @ alias) [Lit ''Alias target must be a string''])))"

definition validate_models :: "toml \<Rightarrow> step" where
  "validate_models models =
     bind_val (py_items models) (\<lambda>items.
       for_each items (\<lambda>(model_name, cfg). do_all
         [check_item cfg ''temperature'' (\<lambda>v.
            validate_float_range (''models.'' @ model_name @ ''.temperature'') v
              (Finite 0) (Finite 2)),
          check_item cfg ''max_tokens'' (\<lambda>v.
            validate_integer_range (''models.'' @ model_name @ ''.max_tokens'') v 1 100000)]))"

definition validate_prompts :: "toml \<Rightarrow> step" where
  "validate_prompts prompts =
     bind_val (py_items prompts) (\<lambda>items.
       for_each items (\<lambda>(name, prompt).
         when_true (\<not> isinstance_str prompt)
           (add_error (''prompts.'' @ name) [Lit ''Prompt must be a string''])))"

definition validate_features :: "toml \<Rightarrow> step" where
  "validate_features features =
     bind_val (py_items features) (\<lambda>items.
       for_each items (\<lambda>(feature, enabled).
         validate_boolean (''features.'' @ feature) enabled))"

subsection \<open>Structure, cross-validation and the entry point\<close>

definition valid_tables :: "string set" where
  "valid_tables = {''api'', ''repl'', ''logging'', ''tools'', ''session'', ''ui'', ''response'',
     ''network'', ''security'', ''debug'', ''aliases'', ''models'', ''prompts'', ''features''}"

definition validate_structure :: "config \<Rightarrow> step" where
  "validate_structure config =
     for_each (map fst config) (\<lambda>key.
       when_true (key \<notin> valid_tables)
         (add_warning '''' [Lit ''Unknown top-level table: '', Lit key]))"

text \<open>\<open>config.get(key, {})\<close> on the document, and the truth value of the result of
  \<open>obj.get(key, False)\<close> or \<open>obj.get(key)\<close>: both defaults are false.\<close>

definition get_table :: "config \<Rightarrow> string \<Rightarrow> toml" where
  "get_table config key = (case map_of config key of None \<Rightarrow> TDict [] | Some v \<Rightarrow> v)"

definition truthy_or_false :: "toml option \<Rightarrow> bool" where
  "truthy_or_false r = (case r of None \<Rightarrow> False | Some v \<Rightarrow> truthy v)"

definition cross_validate :: "config \<Rightarrow> step" where
  "cross_validate config = do_all
     [bind_val (py_get (get_table config ''logging'') ''log_requests'') (\<lambda>log_requests.
        when_true (truthy_or_false log_requests)
          (bind_val (py_get (get_table config ''logging'') ''file'') (\<lambda>file.
             when_true (\<not> truthy_or_false file)
               (add_warning ''logging''
                  [Lit ''log_requests is true but no log file specified''])))),
      bind_val (py_get (get_table config ''session'') ''auto_save'') (\<lambda>auto_save.
        when_true (truthy_or_false auto_save)
          (bind_val (py_get (get_table config ''session'') ''default_dir'') (\<lambda>default_dir.
             when_true (\<not> truthy_or_false default_dir)
               (add_warning ''session''
                  [Lit ''auto_save is true but no default_dir specified'']))))]"

text \<open>
  What the file system and the TOML parser give \<open>validate_file\<close>.
  \<open>config_path.exists()\<close> stands before the \<open>try\<close>: it answers false for a path that
  is not there (\<open>Missing\<close>), and it raises for a path it cannot examine, for instance
  a name that is too long or a directory that may not be searched (\<open>Exists_error\<close>, an
  \<open>OSError\<close> that nothing catches). Inside the \<open>try\<close>, \<open>open\<close> and \<open>toml.load\<close> give a
  \<open>TomlDecodeError\<close>, any other exception (each with its text), or the parsed document.
\<close>

datatype load_result =
    Exists_error string
  | Missing
  | Decode_error string
  | Read_error string
  | Loaded config

definition has_errors :: "ValidationIssue list \<Rightarrow> bool" where
  "has_errors issues = list_ex (\<lambda>issue. level issue = ERROR) issues"

definition returning :: "bool \<Rightarrow> pyerror + ValidationIssue list
    \<Rightarrow> pyerror + (bool \<times> ValidationIssue list)" where
  "returning verdict r = (case r of Inl e \<Rightarrow> Inl e | Inr issues \<Rightarrow> Inr (verdict, issues))"

definition validate_file ::
    "(toml \<Rightarrow> bool) \<Rightarrow> string \<Rightarrow> load_result \<Rightarrow> pyerror + (bool \<times> ValidationIssue list)" where
  "validate_file size_pattern_match config_path src =
     (case src of
        Exists_error e \<Rightarrow> Inl OSError
      | Missing \<Rightarrow>
          returning False
            (add_error '''' [Lit ''Configuration file not found: '', Lit config_path] [])
      | Decode_error e \<Rightarrow>
          returning False (add_error '''' [Lit ''Invalid TOML syntax: '', Lit e] [])
      | Read_error e \<Rightarrow>
          returning False (add_error '''' [Lit ''Error reading file: '', Lit e] [])
      | Loaded config \<Rightarrow>
          (case do_all
             [validate_structure config,
              check_item (TDict config) ''api'' validate_api,
              check_item (TDict config) ''repl'' validate_repl,
              check_item (TDict config) ''logging'' (validate_logging size_pattern_match),
              check_item (TDict config) ''tools'' (validate_tools size_pattern_match),
              check_item (TDict config) ''session'' validate_session,
              check_item (TDict config) ''ui'' validate_ui,
              check_item (TDict config) ''response'' validate_response,
              check_item (TDict config) ''network'' validate_network,
              check_item (TDict config) ''security'' validate_security,
              check_item (TDict config) ''debug'' validate_debug,
              check_item (TDict config) ''aliases'' validate_aliases,
              check_item (TDict config) ''models'' validate_models,
              check_item (TDict config) ''prompts'' validate_prompts,
              check_item (TDict config) ''features'' validate_features,
              cross_validate config] []
           of Inl e \<Rightarrow> Inl e
            | Inr issues \<Rightarrow> Inr (\<not> has_errors issues, issues)))"

subsection \<open>The command line\<close>






subsection \<open>An instance of the size pattern\<close>

text \<open>
  For evaluating the validator on example documents, the parameter \<open>size_pattern_match\<close>
  is instantiated with the pattern \<open>^\d+(\.\d+)?\s*(B|KB?|MB?|GB?)?$\<close> (ignoring case, and
  \<open>$\<close> also matching before a final newline) read on ASCII text: a string as it is, an
  integer as its decimal digits, a float where Python prints it in positional notation
  (the sign of a zero is not kept by \<open>pyfloat\<close>). The other values print with a first
  character that is no digit. The theorems hold for every value of the parameter; the
  instance only serves to run the validator on the example documents.
\<close>

definition is_digit :: "char \<Rightarrow> bool" where
  "is_digit c = (c \<in> set ''0123456789'')"

definition is_space :: "char \<Rightarrow> bool" where
  "is_space c = (c \<in> set [CHR '' '', CHR 0x09, CHR 0x0A, CHR 0x0B, CHR 0x0C, CHR 0x0D,
     CHR 0x1C, CHR 0x1D, CHR 0x1E, CHR 0x1F])"

definition SIZE_UNITS :: "string list" where
  "SIZE_UNITS = [''B'', ''b'', ''K'', ''k'', ''KB'', ''Kb'', ''kB'', ''kb'', ''M'', ''m'', ''MB'',
     ''Mb'', ''mB'', ''mb'', ''G'', ''g'', ''GB'', ''Gb'', ''gB'', ''gb'']"

definition ascii_size_string :: "string \<Rightarrow> bool" where
  "ascii_size_string s =
     (let r1 = dropWhile is_digit s;
          has_fraction = (r1 \<noteq> [] \<and> hd r1 = CHR ''.'');
          r2 = (if has_fraction then dropWhile is_digit (tl r1) else r1);
          r3 = dropWhile is_space r2;
          r4 = (if r3 \<noteq> [] \<and> last r3 = CHR 0x0A then butlast r3 else r3)
      in takeWhile is_digit s \<noteq> []
         \<and> (if has_fraction then takeWhile is_digit (tl r1) \<noteq> [] else True)
         \<and> r4 \<in> set ([] # SIZE_UNITS))"

fun ascii_size_match :: "toml \<Rightarrow> bool" where
  "ascii_size_match (TStr s) = ascii_size_string s"
| "ascii_size_match (TInt n) = (0 \<le> n)"
| "ascii_size_match (TFloat (Finite r)) = (r = 0 \<or> (1 / 10000 \<le> r \<and> r < 10 ^ 16))"
| "ascii_size_match _ = False"

subsection \<open>Notions used in the statements\<close>

text \<open>
  A step \<open>emits P\<close> when all it does to the issue list is append issues that satisfy
  \<open>P\<close>: whether it raises, and what it appends, does not depend on the list it starts
  from.
\<close>

definition emits :: "(ValidationIssue \<Rightarrow> bool) \<Rightarrow> step \<Rightarrow> bool" where
  "emits P f =
     (case f [] of
        Inl e \<Rightarrow> (\<forall>issues. f issues = Inl e)
      | Inr new \<Rightarrow> list_all P new \<and> (\<forall>issues. f issues = Inr (issues @ new)))"

text \<open>The fourteen section statements of \<open>validate_file\<close>, in the order of the source.\<close>

definition section_steps :: "(toml \<Rightarrow> bool) \<Rightarrow> config \<Rightarrow> step list" where
  "section_steps size_pattern_match config =
     [check_item (TDict config) ''api'' validate_api,
      check_item (TDict config) ''repl'' validate_repl,
      check_item (TDict config) ''logging'' (validate_logging size_pattern_match),
      check_item (TDict config) ''tools'' (validate_tools size_pattern_match),
      check_item (TDict config) ''session'' validate_session,
      check_item (TDict config) ''ui'' validate_ui,
      check_item (TDict config) ''response'' validate_response,
      check_item (TDict config) ''network'' validate_network,
      check_item (TDict config) ''security'' validate_security,
      check_item (TDict config) ''debug'' validate_debug,
      check_item (TDict config) ''aliases'' validate_aliases,
      check_item (TDict config) ''models'' validate_models,
      check_item (TDict config) ''prompts'' validate_prompts,
      check_item (TDict config) ''features'' validate_features]"

text \<open>The warning of the structural scan for a key, and a document without a key.\<close>

definition unknown_table_warning :: "string \<Rightarrow> ValidationIssue" where
  "unknown_table_warning key =
     \<lparr>level = WARNING, path = '''', message = [Lit ''Unknown top-level table: '', Lit key]\<rparr>"

definition remove_key :: "string \<Rightarrow> config \<Rightarrow> config" where
  "remove_key key config = filter (\<lambda>entry. fst entry \<noteq> key) config"

text \<open>The issues of a level, and the issues of a level at a path.\<close>

definition issues_of_level :: "ValidationLevel \<Rightarrow> ValidationIssue list \<Rightarrow> ValidationIssue list" where
  "issues_of_level l issues = filter (\<lambda>i. level i = l) issues"

definition issues_at :: "ValidationLevel \<Rightarrow> string \<Rightarrow> ValidationIssue list \<Rightarrow> ValidationIssue list" where
  "issues_at l p issues = filter (\<lambda>i. level i = l \<and> path i = p) issues"


text \<open>An issue is located when its path is not empty.\<close>

definition located :: "ValidationIssue \<Rightarrow> bool" where
  "located i = (path i \<noteq> [])"


section \<open>Steps only append\<close>

named_theorems emits_intros

lemma emits_eq:
  "emits P f \<Longrightarrow> f issues = (case f [] of Inl e \<Rightarrow> Inl e | Inr new \<Rightarrow> Inr (issues @ new))"
  by (auto simp: emits_def split: sum.splits)

lemma emits_all: "emits P f \<Longrightarrow> f [] = Inr new \<Longrightarrow> list_all P new"
  by (auto simp: emits_def split: sum.splits)

lemma emits_run: "emits P f \<Longrightarrow> f [] = Inr new \<Longrightarrow> f issues = Inr (issues @ new)"
  by (auto simp: emits_def split: sum.splits)

lemma emits_mono: "emits P f \<Longrightarrow> (\<And>i. P i \<Longrightarrow> Q i) \<Longrightarrow> emits Q f"
  by (auto simp: emits_def list_all_iff split: sum.splits)

lemma emits_skip [emits_intros]: "emits P skip"
  by (simp add: emits_def skip_def)

lemma emits_add_error [emits_intros]:
  "P \<lparr>level = ERROR, path = p, message = m\<rparr> \<Longrightarrow> emits P (add_error p m)"
  by (simp add: emits_def add_error_def)

lemma emits_add_warning [emits_intros]:
  "P \<lparr>level = WARNING, path = p, message = m\<rparr> \<Longrightarrow> emits P (add_warning p m)"
  by (simp add: emits_def add_warning_def)

lemma emits_add_info [emits_intros]:
  "P \<lparr>level = INFO, path = p, message = m\<rparr> \<Longrightarrow> emits P (add_info p m)"
  by (simp add: emits_def add_info_def)

lemma emits_then_step [emits_intros]:
  assumes "emits P f" "emits P g"
  shows "emits P (then_step f g)"
proof (cases "f []")
  case (Inl e)
  with assms(1) show ?thesis
    by (simp add: emits_def then_step_def)
next
  case f: (Inr a)
  then have fa: "\<And>issues. f issues = Inr (issues @ a)" and Pa: "list_all P a"
    using assms(1) by (simp_all add: emits_def)
  show ?thesis
  proof (cases "g []")
    case (Inl e)
    then have "\<And>issues. g issues = Inl e"
      using assms(2) by (simp add: emits_def)
    then show ?thesis
      by (simp add: emits_def then_step_def fa)
  next
    case (Inr b)
    then have "\<And>issues. g issues = Inr (issues @ b)" and "list_all P b"
      using assms(2) by (simp_all add: emits_def)
    then show ?thesis
      using Pa by (simp add: emits_def then_step_def fa)
  qed
qed

lemma emits_do_all_Nil [emits_intros]: "emits P (do_all [])"
  by (simp add: emits_skip)

lemma emits_do_all_Cons [emits_intros]:
  "emits P f \<Longrightarrow> emits P (do_all fs) \<Longrightarrow> emits P (do_all (f # fs))"
  by (simp add: emits_then_step)

lemma emits_do_all: "list_all (emits P) fs \<Longrightarrow> emits P (do_all fs)"
  by (induction fs) (simp_all add: emits_skip emits_then_step)

lemma emits_bind_val [emits_intros]:
  "(\<And>x. r = Inr x \<Longrightarrow> emits P (k x)) \<Longrightarrow> emits P (bind_val r k)"
  by (cases r) (auto simp: emits_def bind_val_def split: sum.splits)

lemma emits_when_true [emits_intros]:
  "(b \<Longrightarrow> emits P f) \<Longrightarrow> emits P (when_true b f)"
  by (simp add: when_true_def emits_skip)

lemma emits_for_each [emits_intros]:
  "(\<And>x. x \<in> set xs \<Longrightarrow> emits P (body x)) \<Longrightarrow> emits P (for_each xs body)"
  by (induction xs) (simp_all add: emits_skip emits_then_step)

lemma emits_if_in [emits_intros]:
  "emits P body \<Longrightarrow> emits P (if_in key obj body)"
  unfolding if_in_def by (intro emits_bind_val emits_when_true)

lemma emits_check_item [emits_intros]:
  "(\<And>v. emits P (check v)) \<Longrightarrow> emits P (check_item obj key check)"
  unfolding check_item_def by (intro emits_if_in emits_bind_val)

lemma emits_case_prod [emits_intros]:
  "(\<And>a b. emits P (f a b)) \<Longrightarrow> emits P (case x of (a, b) \<Rightarrow> f a b)"
  by (cases x) simp

lemma emits_validate_integer_range [emits_intros]:
  "(\<And>m. P \<lparr>level = ERROR, path = p, message = m\<rparr>) \<Longrightarrow> emits P (validate_integer_range p v lo hi)"
  by (simp add: validate_integer_range_def emits_add_error emits_skip split: option.split)

lemma emits_validate_float_range [emits_intros]:
  "(\<And>m. P \<lparr>level = ERROR, path = p, message = m\<rparr>) \<Longrightarrow> emits P (validate_float_range p v lo hi)"
  by (simp add: validate_float_range_def emits_add_error emits_skip split: option.split)

lemma emits_validate_boolean [emits_intros]:
  "(\<And>m. P \<lparr>level = ERROR, path = p, message = m\<rparr>) \<Longrightarrow> emits P (validate_boolean p v)"
  by (simp add: validate_boolean_def emits_add_error emits_skip)

lemma emits_validate_api: "emits located (validate_api api)"
  unfolding validate_api_def by (intro emits_intros) (simp_all add: located_def)

lemma emits_validate_repl: "emits located (validate_repl v)"
  unfolding validate_repl_def by (intro emits_intros) (simp_all add: located_def)

lemma emits_validate_logging: "emits located (validate_logging spm v)"
  unfolding validate_logging_def by (intro emits_intros) (simp_all add: located_def)

lemma emits_validate_tools_commands: "emits located (validate_tools_commands v)"
  unfolding validate_tools_commands_def
  by (intro emits_intros) (auto simp: located_def split: toml.split intro!: emits_intros)

lemma emits_validate_tools: "emits located (validate_tools spm v)"
  unfolding validate_tools_def
  by (intro emits_intros emits_validate_tools_commands) (auto simp: located_def split: toml.split intro!: emits_intros)

lemma emits_validate_session: "emits located (validate_session v)"
  unfolding validate_session_def by (intro emits_intros) (simp_all add: located_def)

lemma emits_validate_ui: "emits located (validate_ui v)"
  unfolding validate_ui_def by (intro emits_intros) (simp_all add: located_def)

lemma emits_validate_response: "emits located (validate_response v)"
  unfolding validate_response_def by (intro emits_intros) (simp_all add: located_def)

lemma emits_validate_network: "emits located (validate_network v)"
  unfolding validate_network_def by (intro emits_intros) (simp_all add: located_def)

lemma emits_validate_security: "emits located (validate_security v)"
  unfolding validate_security_def by (intro emits_intros) (simp_all add: located_def)

lemma emits_validate_debug: "emits located (validate_debug v)"
  unfolding validate_debug_def by (intro emits_intros) (simp_all add: located_def)

lemma emits_validate_aliases: "emits located (validate_aliases v)"
  unfolding validate_aliases_def by (intro emits_intros) (simp_all add: located_def)

lemma emits_validate_models: "emits located (validate_models v)"
  unfolding validate_models_def by (intro emits_intros) (simp_all add: located_def)

lemma emits_validate_prompts: "emits located (validate_prompts v)"
  unfolding validate_prompts_def by (intro emits_intros) (simp_all add: located_def)

lemma emits_validate_features: "emits located (validate_features v)"
  unfolding validate_features_def by (intro emits_intros) (simp_all add: located_def)

lemma emits_cross_validate: "emits (\<lambda>i. level i = WARNING \<and> path i \<in> {''logging'', ''session''}) (cross_validate config)"
  unfolding cross_validate_def by (intro emits_intros) simp_all

section \<open>The structure of validate_file\<close>

lemma check_item_dict:
  "check_item (TDict c) n f = (case map_of c n of None \<Rightarrow> skip | Some v \<Rightarrow> f v)"
proof (cases "map_of c n")
  case None
  then have "n \<notin> fst ` set c" by (simp add: map_of_eq_None_iff)
  with None show ?thesis
    by (simp add: check_item_def if_in_def bind_val_def when_true_def fun_eq_iff)
next
  case (Some v)
  then have "n \<in> fst ` set c" by (metis map_of_eq_None_iff option.distinct(1))
  with Some show ?thesis
    by (simp add: check_item_def if_in_def bind_val_def when_true_def fun_eq_iff)
qed

lemma section_steps_cong:
  assumes "\<And>n. n \<in> valid_tables \<Longrightarrow> map_of c' n = map_of c n"
  shows "section_steps spm c' = section_steps spm c"
  unfolding section_steps_def check_item_dict
  by (simp add: assms valid_tables_def)

lemma cross_validate_cong:
  assumes "\<And>n. n \<in> valid_tables \<Longrightarrow> map_of c' n = map_of c n"
  shows "cross_validate c' = cross_validate c"
  unfolding cross_validate_def get_table_def
  by (simp add: assms valid_tables_def)

lemma validate_structure_eq:
  "validate_structure config issues =
     Inr (issues @ map unknown_table_warning (filter (\<lambda>k. k \<notin> valid_tables) (map fst config)))"
proof -
  have "for_each ks (\<lambda>key. when_true (key \<notin> valid_tables)
          (add_warning '''' [Lit ''Unknown top-level table: '', Lit key])) issues =
        Inr (issues @ map unknown_table_warning (filter (\<lambda>k. k \<notin> valid_tables) ks))" for ks
    by (induction ks arbitrary: issues)
       (simp_all add: skip_def then_step_def when_true_def add_warning_def unknown_table_warning_def)
  then show ?thesis by (simp add: validate_structure_def)
qed

lemma emits_section_steps: "list_all (emits located) (section_steps spm config)"
  unfolding section_steps_def
  by (simp add: emits_check_item emits_validate_api emits_validate_repl emits_validate_logging
      emits_validate_tools emits_validate_session emits_validate_ui emits_validate_response
      emits_validate_network emits_validate_security emits_validate_debug emits_validate_aliases
      emits_validate_models emits_validate_prompts emits_validate_features)

lemma emits_cross_validate_located: "emits located (cross_validate config)"
  by (rule emits_mono [OF emits_cross_validate]) (auto simp: located_def)

lemma emits_steps:
  "list_all (emits located) (section_steps spm config @ [cross_validate config])"
  by (simp add: emits_section_steps emits_cross_validate_located)

lemma do_all_parts:
  assumes "list_all (emits P) fs" "do_all fs [] = Inr issues"
  shows "\<exists>parts. list_all2 (\<lambda>f part. f [] = Inr part) fs parts \<and> issues = concat parts"
  using assms
proof (induction fs arbitrary: issues)
  case Nil
  then show ?case by (simp add: skip_def)
next
  case (Cons f fs)
  from Cons.prems(1) have f: "emits P f" and fs: "list_all (emits P) fs" by simp_all
  from Cons.prems(2) obtain a where a: "f [] = Inr a" and rest: "do_all fs a = Inr issues"
    by (auto simp: then_step_def split: sum.splits)
  from fs have efs: "emits P (do_all fs)" by (rule emits_do_all)
  from rest obtain b where b: "do_all fs [] = Inr b" and eq: "issues = a @ b"
    using emits_eq [OF efs, of a] by (auto split: sum.splits)
  from Cons.IH [OF fs b] obtain parts
    where "list_all2 (\<lambda>f part. f [] = Inr part) fs parts" "b = concat parts" by blast
  with a eq have "list_all2 (\<lambda>f part. f [] = Inr part) (f # fs) (a # parts) \<and> issues = concat (a # parts)"
    by simp
  then show ?case by blast
qed

lemma has_errors_append: "has_errors (xs @ ys) = (has_errors xs \<or> has_errors ys)"
  by (auto simp: has_errors_def list_ex_iff)

lemma has_errors_unknown: "\<not> has_errors (map unknown_table_warning ks)"
  by (simp add: has_errors_def list_ex_iff unknown_table_warning_def)

lemma validate_file_Loaded:
  "validate_file spm p (Loaded config) =
     (case do_all (section_steps spm config @ [cross_validate config]) [] of
        Inl e \<Rightarrow> Inl e
      | Inr rest \<Rightarrow>
          Inr (\<not> has_errors rest,
               map unknown_table_warning (filter (\<lambda>k. k \<notin> valid_tables) (map fst config)) @ rest))"
proof -
  let ?S = "map unknown_table_warning (filter (\<lambda>k. k \<notin> valid_tables) (map fst config))"
  let ?r = "do_all (section_steps spm config @ [cross_validate config])"
  have e: "emits located ?r"
    by (rule emits_do_all) (rule emits_steps)
  have "validate_file spm p (Loaded config) =
      (case ?r ?S of Inl e \<Rightarrow> Inl e | Inr issues \<Rightarrow> Inr (\<not> has_errors issues, issues))"
    by (simp add: validate_file_def section_steps_def then_step_def validate_structure_eq)
  also have "\<dots> = (case ?r [] of Inl e \<Rightarrow> Inl e
      | Inr rest \<Rightarrow> Inr (\<not> has_errors rest, ?S @ rest))"
    by (simp add: emits_eq [OF e, of ?S] has_errors_append has_errors_unknown split: sum.splits)
  finally show ?thesis .
qed

lemma map_of_remove_key:
  "n \<noteq> k \<Longrightarrow> map_of (remove_key k config) n = map_of config n"
  by (induction config) (auto simp: remove_key_def)

lemma unknown_keys_split:
  assumes "distinct (map fst config)" "k \<in> fst ` set config" "k \<notin> valid_tables"
  shows "\<exists>ys zs. filter (\<lambda>k. k \<notin> valid_tables) (map fst config) = ys @ k # zs
     \<and> filter (\<lambda>k. k \<notin> valid_tables) (map fst (remove_key k config)) = ys @ zs
     \<and> k \<notin> set ys \<and> k \<notin> set zs"
proof -
  from assms(2) obtain as bs where ks: "map fst config = as @ k # bs"
    by (metis list.set_map split_list)
  with assms(1) have nk: "k \<notin> set as" "k \<notin> set bs" by auto
  have "map fst (remove_key k config) = filter (\<lambda>x. x \<noteq> k) (map fst config)"
    by (simp add: remove_key_def filter_map comp_def)
  also have "\<dots> = as @ bs"
  proof -
    have "filter (\<lambda>x. x \<noteq> k) as = as" "filter (\<lambda>x. x \<noteq> k) bs = bs"
      using nk by (auto simp: filter_id_conv)
    then show ?thesis by (simp add: ks)
  qed
  finally have "map fst (remove_key k config) = as @ bs" .
  with ks assms(3) nk show ?thesis
    by (intro exI [of _ "filter (\<lambda>k. k \<notin> valid_tables) as"]
        exI [of _ "filter (\<lambda>k. k \<notin> valid_tables) bs"]) simp
qed

section \<open>Evaluation and the scans\<close>

text \<open>The definitions that evaluate the validator on a concrete document.\<close>

lemmas run_defs =
  validate_file_def returning_def has_errors_def check_item_def if_in_def bind_val_def
  when_true_def skip_def then_step_def add_error_def add_warning_def
  validate_structure_def valid_tables_def cross_validate_def get_table_def truthy_or_false_def
  validate_integer_range_def validate_float_range_def validate_boolean_def






lemma cross_validate_tables:
  assumes "get_table config ''logging'' = TDict l" "get_table config ''session'' = TDict s"
  shows "cross_validate config issues =
     Inr (issues
       @ (if truthy_or_false (map_of l ''log_requests'') \<and> \<not> truthy_or_false (map_of l ''file'')
          then [\<lparr>level = WARNING, path = ''logging'',
                 message = [Lit ''log_requests is true but no log file specified'']\<rparr>] else [])
       @ (if truthy_or_false (map_of s ''auto_save'') \<and> \<not> truthy_or_false (map_of s ''default_dir'')
          then [\<lparr>level = WARNING, path = ''session'',
                 message = [Lit ''auto_save is true but no default_dir specified'']\<rparr>] else []))"
  by (simp add: cross_validate_def assms bind_val_def when_true_def skip_def then_step_def
      add_warning_def)

section \<open>The claims\<close>

subsection \<open>C1: the verdict\<close>

text \<open>
  C1. Whenever \<open>validate_file\<close> returns, for a parsed document or for a source it could
  not load, the verdict is true exactly if no returned issue has level ERROR; issues of
  level WARNING or INFO do not enter the verdict.
\<close>

theorem validate_file_verdict:
  assumes "validate_file spm p src = Inr (ok, issues)"
  shows "ok = (issues_of_level ERROR issues = [])"
  using assms
  by (cases src)
     (auto simp: validate_file_def returning_def add_error_def has_errors_def list_ex_iff
        issues_of_level_def filter_empty_conv split: sum.splits)

text \<open>An inline API key alone warns and leaves the verdict true; with a timeout out of
  range the verdict is false.\<close>

theorem validate_file_verdict_witness:
  "validate_file ascii_size_match ''config.toml''
     (Loaded [(''api'', TDict [(''api_key'', TStr ''secret'')])]) =
     Inr (True,
       [\<lparr>level = WARNING, path = ''api.api_key'', message =
          [Lit ''API key should not be stored in config file. Use GEMINI_API_KEY environment variable.'']\<rparr>])
   \<and> issues_of_level ERROR
       [\<lparr>level = WARNING, path = ''api.api_key'', message =
          [Lit ''API key should not be stored in config file. Use GEMINI_API_KEY environment variable.'']\<rparr>] = []
   \<and> validate_file ascii_size_match ''config.toml''
     (Loaded [(''api'', TDict [(''api_key'', TStr ''secret''), (''timeout'', TInt 500)])]) =
     Inr (False,
       [\<lparr>level = WARNING, path = ''api.api_key'', message =
          [Lit ''API key should not be stored in config file. Use GEMINI_API_KEY environment variable.'']\<rparr>,
        \<lparr>level = ERROR, path = ''api.timeout'', message =
          [Lit ''Must be between '', Hole (TInt 1), Lit '' and '', Hole (TInt 300)]\<rparr>])
   \<and> issues_of_level ERROR
       [\<lparr>level = WARNING, path = ''api.api_key'', message =
          [Lit ''API key should not be stored in config file. Use GEMINI_API_KEY environment variable.'']\<rparr>,
        \<lparr>level = ERROR, path = ''api.timeout'', message =
          [Lit ''Must be between '', Hole (TInt 1), Lit '' and '', Hole (TInt 300)]\<rparr>] \<noteq> []"
proof -
  have a: "validate_file ascii_size_match ''config.toml''
     (Loaded [(''api'', TDict [(''api_key'', TStr ''secret'')])]) =
     Inr (True,
       [\<lparr>level = WARNING, path = ''api.api_key'', message =
          [Lit ''API key should not be stored in config file. Use GEMINI_API_KEY environment variable.'']\<rparr>])"
    by (simp add: run_defs validate_api_def)
  have b: "validate_file ascii_size_match ''config.toml''
     (Loaded [(''api'', TDict [(''api_key'', TStr ''secret''), (''timeout'', TInt 500)])]) =
     Inr (False,
       [\<lparr>level = WARNING, path = ''api.api_key'', message =
          [Lit ''API key should not be stored in config file. Use GEMINI_API_KEY environment variable.'']\<rparr>,
        \<lparr>level = ERROR, path = ''api.timeout'', message =
          [Lit ''Must be between '', Hole (TInt 1), Lit '' and '', Hole (TInt 300)]\<rparr>])"
    by (simp add: run_defs validate_api_def)
  from validate_file_verdict [OF a] validate_file_verdict [OF b] a b show ?thesis
    by simp
qed

subsection \<open>C2: an unrecognized top-level key\<close>

text \<open>
  C2, as the code has it. The structural scan reports an unrecognized key with an empty
  path and names the key in the message, so the result holds no warning whose path is
  the key. The document \<open>{foo: 1}\<close> yields one warning, and its path is empty.
\<close>

theorem unknown_top_level_key_counterexample:
  "validate_file ascii_size_match ''config.toml'' (Loaded [(''foo'', TInt 1)]) =
     Inr (True,
       [\<lparr>level = WARNING, path = '''', message = [Lit ''Unknown top-level table: '', Lit ''foo'']\<rparr>])
   \<and> issues_at WARNING ''foo''
       [\<lparr>level = WARNING, path = '''', message = [Lit ''Unknown top-level table: '', Lit ''foo'']\<rparr>] = []"
  by (simp add: run_defs issues_at_def)

text \<open>
  C2, amended. For a document (a dict, so its keys are distinct) with a top-level key
  \<open>k\<close> outside the recognized set, the result holds exactly one issue naming \<open>k\<close>: the
  WARNING with empty path and message \<open>Unknown top-level table: k\<close>. The key produces
  nothing else and is dispatched to no routine: validation of the document without \<open>k\<close>
  raises exactly when validation of the document does, and otherwise returns the same
  verdict and the same issues but for that one warning.
\<close>

theorem unknown_top_level_key:
  assumes "distinct (map fst config)" "k \<in> fst ` set config" "k \<notin> valid_tables"
  shows "(\<forall>e. validate_file spm p (Loaded config) = Inl e \<longleftrightarrow>
              validate_file spm p (Loaded (remove_key k config)) = Inl e)
    \<and> (\<forall>ok issues. validate_file spm p (Loaded config) = Inr (ok, issues) \<longrightarrow>
         (\<exists>before after.
             issues = before @ [unknown_table_warning k] @ after
           \<and> unknown_table_warning k \<notin> set before \<and> unknown_table_warning k \<notin> set after
           \<and> validate_file spm p (Loaded (remove_key k config)) = Inr (ok, before @ after)))"
proof -
  let ?U = "\<lambda>c. filter (\<lambda>k. k \<notin> valid_tables) (map fst c)"
  let ?fs = "section_steps spm config @ [cross_validate config]"
  from unknown_keys_split [OF assms] obtain ys zs
    where U: "?U config = ys @ k # zs" and U': "?U (remove_key k config) = ys @ zs"
      and nk: "k \<notin> set ys" "k \<notin> set zs" by blast
  have unchanged: "map_of (remove_key k config) n = map_of config n" if "n \<in> valid_tables" for n
    using that assms(3) by (intro map_of_remove_key) auto
  have "section_steps spm (remove_key k config) = section_steps spm config"
    by (rule section_steps_cong) (rule unchanged)
  moreover have "cross_validate (remove_key k config) = cross_validate config"
    by (rule cross_validate_cong) (rule unchanged)
  ultimately have same:
    "section_steps spm (remove_key k config) @ [cross_validate (remove_key k config)] = ?fs"
    by simp
  have raises: "validate_file spm p (Loaded config) = Inl e \<longleftrightarrow>
      validate_file spm p (Loaded (remove_key k config)) = Inl e" for e
    by (simp add: validate_file_Loaded same split: sum.splits)
  have returns: "\<exists>before after.
        issues = before @ [unknown_table_warning k] @ after
      \<and> unknown_table_warning k \<notin> set before \<and> unknown_table_warning k \<notin> set after
      \<and> validate_file spm p (Loaded (remove_key k config)) = Inr (ok, before @ after)"
    if result: "validate_file spm p (Loaded config) = Inr (ok, issues)" for ok issues
  proof -
    from result obtain rest where rest: "do_all ?fs [] = Inr rest"
      and ok: "ok = (\<not> has_errors rest)"
      and issues: "issues = map unknown_table_warning (?U config) @ rest"
      by (auto simp: validate_file_Loaded split: sum.splits)
    have "list_all located rest"
      using emits_all [OF emits_do_all [OF emits_steps] rest] .
    then have notin_rest: "unknown_table_warning k \<notin> set rest"
      by (auto simp: list_all_iff unknown_table_warning_def located_def)
    have inj: "unknown_table_warning k \<notin> unknown_table_warning ` set ks" if "k \<notin> set ks" for ks
      using that by (auto simp: unknown_table_warning_def)
    let ?before = "map unknown_table_warning ys"
    let ?after = "map unknown_table_warning zs @ rest"
    have "issues = ?before @ [unknown_table_warning k] @ ?after"
      by (simp add: issues U)
    moreover have "unknown_table_warning k \<notin> set ?before" "unknown_table_warning k \<notin> set ?after"
      using inj nk notin_rest by auto
    moreover have "validate_file spm p (Loaded (remove_key k config)) = Inr (ok, ?before @ ?after)"
      by (simp add: validate_file_Loaded same rest ok U')
    ultimately show ?thesis by blast
  qed
  from raises returns show ?thesis by blast
qed

text \<open>The document \<open>{foo: 1, api: {timeout: 0}}\<close>: the warning for \<open>foo\<close> comes first, and
  without \<open>foo\<close> the error of \<open>api.timeout\<close> is all that is left.\<close>

theorem unknown_top_level_key_witness:
  "distinct (map fst [(''foo'', TInt 1), (''api'', TDict [(''timeout'', TInt 0)])])
   \<and> ''foo'' \<in> fst ` set [(''foo'', TInt 1), (''api'', TDict [(''timeout'', TInt 0)])]
   \<and> ''foo'' \<notin> valid_tables
   \<and> validate_file ascii_size_match ''config.toml''
       (Loaded [(''foo'', TInt 1), (''api'', TDict [(''timeout'', TInt 0)])]) =
       Inr (False,
         [unknown_table_warning ''foo'',
          \<lparr>level = ERROR, path = ''api.timeout'', message =
             [Lit ''Must be between '', Hole (TInt 1), Lit '' and '', Hole (TInt 300)]\<rparr>])
   \<and> validate_file ascii_size_match ''config.toml''
       (Loaded (remove_key ''foo'' [(''foo'', TInt 1), (''api'', TDict [(''timeout'', TInt 0)])])) =
       Inr (False,
         [\<lparr>level = ERROR, path = ''api.timeout'', message =
             [Lit ''Must be between '', Hole (TInt 1), Lit '' and '', Hole (TInt 300)]\<rparr>])"
proof -
  let ?c = "[(''foo'', TInt 1), (''api'', TDict [(''timeout'', TInt 0)])]"
  let ?e = "\<lparr>level = ERROR, path = ''api.timeout'', message =
             [Lit ''Must be between '', Hole (TInt 1), Lit '' and '', Hole (TInt 300)]\<rparr>"
  have h1: "distinct (map fst ?c)" by simp
  have h2: "''foo'' \<in> fst ` set ?c" by simp
  have h3: "''foo'' \<notin> valid_tables" by (simp add: valid_tables_def)
  have h4: "validate_file ascii_size_match ''config.toml'' (Loaded ?c) =
      Inr (False, [unknown_table_warning ''foo'', ?e])"
    by (simp add: run_defs validate_api_def unknown_table_warning_def)
  from unknown_top_level_key [OF h1 h2 h3, of ascii_size_match "''config.toml''"] h4
  obtain before after
    where split: "[unknown_table_warning ''foo'', ?e] = before @ [unknown_table_warning ''foo''] @ after"
      and fresh: "unknown_table_warning ''foo'' \<notin> set before"
      and removed: "validate_file ascii_size_match ''config.toml'' (Loaded (remove_key ''foo'' ?c)) =
        Inr (False, before @ after)"
    by blast
  from split fresh have "before @ after = [?e]"
    by (cases before) auto
  with removed have "validate_file ascii_size_match ''config.toml''
      (Loaded (remove_key ''foo'' ?c)) = Inr (False, [?e])"
    by simp
  with h1 h2 h3 h4 show ?thesis by blast
qed

subsection \<open>C3: a source that cannot be loaded\<close>

text \<open>
  C3. The three handlers of the source do what the claim says: a path at which
  \<open>exists()\<close> finds nothing, a \<open>TomlDecodeError\<close>, and any other exception of \<open>open\<close> or
  \<open>toml.load\<close> each give the verdict false and a list of exactly one issue, an ERROR with
  empty path, and nothing of the structural, section or cross-validation checks. A path
  that \<open>exists()\<close> cannot examine is missed: the call stands before the \<open>try\<close>, its
  \<open>OSError\<close> is caught nowhere, and \<open>validate_file\<close> returns neither verdict nor issue.
\<close>

theorem load_failure_exists_raises:
  "validate_file spm p (Exists_error e) = Inl OSError
   \<and> validate_file spm p Missing =
     Inr (False, [\<lparr>level = ERROR, path = '''',
                   message = [Lit ''Configuration file not found: '', Lit p]\<rparr>])
   \<and> validate_file spm p (Decode_error e) =
     Inr (False, [\<lparr>level = ERROR, path = '''',
                   message = [Lit ''Invalid TOML syntax: '', Lit e]\<rparr>])
   \<and> validate_file spm p (Read_error e) =
     Inr (False, [\<lparr>level = ERROR, path = '''',
                   message = [Lit ''Error reading file: '', Lit e]\<rparr>])"
  by (simp add: validate_file_def returning_def add_error_def)

theorem load_failure_exists_raises_witness:
  "validate_file ascii_size_match ''config.toml'' (Exists_error ''File name too long'') =
     Inl OSError
   \<and> validate_file ascii_size_match ''config.toml'' Missing =
     Inr (False, [\<lparr>level = ERROR, path = '''',
                   message = [Lit ''Configuration file not found: '', Lit ''config.toml'']\<rparr>])
   \<and> validate_file ascii_size_match ''config.toml'' (Decode_error ''File name too long'') =
     Inr (False, [\<lparr>level = ERROR, path = '''',
                   message = [Lit ''Invalid TOML syntax: '', Lit ''File name too long'']\<rparr>])
   \<and> validate_file ascii_size_match ''config.toml'' (Read_error ''File name too long'') =
     Inr (False, [\<lparr>level = ERROR, path = '''',
                   message = [Lit ''Error reading file: '', Lit ''File name too long'']\<rparr>])"
  by (rule load_failure_exists_raises)

subsection \<open>C4: the integer range check\<close>

text \<open>
  C4, as the code has it. The type test of the check is \<open>isinstance(value, int)\<close>, and in
  Python a boolean is an instance of \<open>int\<close>. The boolean \<open>true\<close>, which is no integer of
  the document, gets no ERROR \<open>Must be an integer\<close> under the bounds 1 and 300: it gets
  no issue at all.
\<close>

theorem integer_range_bounds_counterexample:
  "validate_integer_range ''api.timeout'' (TBool True) 1 300 [] = Inr []
   \<and> validate_integer_range ''api.timeout'' (TBool True) 1 300 [] \<noteq>
       Inr [\<lparr>level = ERROR, path = ''api.timeout'', message = [Lit ''Must be an integer'']\<rparr>]"
  by (simp add: validate_integer_range_def skip_def)

text \<open>
  C4, amended. For bounds \<open>min_val \<le> max_val\<close> the integer range check appends nothing
  for the values \<open>min_val\<close> and \<open>max_val\<close> (the bounds are inclusive), exactly one ERROR
  \<open>Must be between min_val and max_val\<close> for \<open>min_val - 1\<close> and for \<open>max_val + 1\<close>, and
  exactly one ERROR \<open>Must be an integer\<close> for a value that is neither an integer nor a
  boolean. A boolean is not refused for its type: it is checked as the integer 1 (true)
  or 0 (false).
\<close>

theorem integer_range_bounds:
  assumes "min_val \<le> max_val"
  shows "validate_integer_range p (TInt min_val) min_val max_val issues = Inr issues
    \<and> validate_integer_range p (TInt max_val) min_val max_val issues = Inr issues
    \<and> validate_integer_range p (TInt (min_val - 1)) min_val max_val issues =
        Inr (issues @ [\<lparr>level = ERROR, path = p, message =
           [Lit ''Must be between '', Hole (TInt min_val), Lit '' and '', Hole (TInt max_val)]\<rparr>])
    \<and> validate_integer_range p (TInt (max_val + 1)) min_val max_val issues =
        Inr (issues @ [\<lparr>level = ERROR, path = p, message =
           [Lit ''Must be between '', Hole (TInt min_val), Lit '' and '', Hole (TInt max_val)]\<rparr>])
    \<and> ((\<forall>n. v \<noteq> TInt n) \<and> (\<forall>b. v \<noteq> TBool b) \<longrightarrow>
        validate_integer_range p v min_val max_val issues =
        Inr (issues @ [\<lparr>level = ERROR, path = p, message = [Lit ''Must be an integer'']\<rparr>]))
    \<and> validate_integer_range p (TBool b) min_val max_val issues =
        validate_integer_range p (TInt (if b then 1 else 0)) min_val max_val issues"
proof -
  have "as_int v = None" if "\<forall>n. v \<noteq> TInt n" "\<forall>b. v \<noteq> TBool b"
    using that by (cases v) auto
  with assms show ?thesis
    by (simp add: validate_integer_range_def add_error_def skip_def)
qed

theorem integer_range_bounds_witness:
  "(1::int) \<le> 300
   \<and> validate_integer_range ''api.timeout'' (TInt 1) 1 300 [] = Inr []
   \<and> validate_integer_range ''api.timeout'' (TInt 300) 1 300 [] = Inr []
   \<and> validate_integer_range ''api.timeout'' (TInt 0) 1 300 [] =
        Inr [\<lparr>level = ERROR, path = ''api.timeout'', message =
           [Lit ''Must be between '', Hole (TInt 1), Lit '' and '', Hole (TInt 300)]\<rparr>]
   \<and> validate_integer_range ''api.timeout'' (TInt 301) 1 300 [] =
        Inr [\<lparr>level = ERROR, path = ''api.timeout'', message =
           [Lit ''Must be between '', Hole (TInt 1), Lit '' and '', Hole (TInt 300)]\<rparr>]
   \<and> validate_integer_range ''api.timeout'' (TStr ''30'') 1 300 [] =
        Inr [\<lparr>level = ERROR, path = ''api.timeout'', message = [Lit ''Must be an integer'']\<rparr>]
   \<and> validate_integer_range ''api.timeout'' (TFloat (Finite 30)) 1 300 [] =
        Inr [\<lparr>level = ERROR, path = ''api.timeout'', message = [Lit ''Must be an integer'']\<rparr>]
   \<and> validate_integer_range ''api.timeout'' (TBool False) 1 300 [] =
        validate_integer_range ''api.timeout'' (TInt 0) 1 300 []"
proof -
  have h: "(1::int) \<le> 300" by simp
  from integer_range_bounds [OF h, of "''api.timeout''" "[]" "TStr ''30''" False]
    integer_range_bounds [OF h, of "''api.timeout''" "[]" "TFloat (Finite 30)" False] h
  show ?thesis by simp
qed

subsection \<open>C5: the boolean check\<close>



subsection \<open>C6: cross-validation\<close>

text \<open>
  C6. Cross-validation appends nothing but WARNINGs, at the paths \<open>logging\<close> and
  \<open>session\<close>, whatever the document; where both tables are dicts it appends the
  \<open>logging\<close> warning exactly if \<open>log_requests\<close> is true and \<open>file\<close> is not, and the
  \<open>session\<close> warning exactly if \<open>auto_save\<close> is true and \<open>default_dir\<close> is not. The
  document \<open>{logging: {log_requests: true}}\<close> yields that one warning and the verdict
  true.
\<close>

theorem cross_validation_warns:
  "emits (\<lambda>i. level i = WARNING \<and> path i \<in> {''logging'', ''session''}) (cross_validate config)
   \<and> (get_table config ''logging'' = TDict l \<and> get_table config ''session'' = TDict s \<longrightarrow>
       cross_validate config issues =
         Inr (issues
           @ (if truthy_or_false (map_of l ''log_requests'') \<and> \<not> truthy_or_false (map_of l ''file'')
              then [\<lparr>level = WARNING, path = ''logging'',
                     message = [Lit ''log_requests is true but no log file specified'']\<rparr>]
              else [])
           @ (if truthy_or_false (map_of s ''auto_save'')
                 \<and> \<not> truthy_or_false (map_of s ''default_dir'')
              then [\<lparr>level = WARNING, path = ''session'',
                     message = [Lit ''auto_save is true but no default_dir specified'']\<rparr>]
              else [])))
   \<and> validate_file spm p (Loaded [(''logging'', TDict [(''log_requests'', TBool True)])]) =
       Inr (True, [\<lparr>level = WARNING, path = ''logging'',
                    message = [Lit ''log_requests is true but no log file specified'']\<rparr>])"
proof -
  have "validate_file spm p (Loaded [(''logging'', TDict [(''log_requests'', TBool True)])]) =
       Inr (True, [\<lparr>level = WARNING, path = ''logging'',
                    message = [Lit ''log_requests is true but no log file specified'']\<rparr>])"
    by (simp add: run_defs validate_logging_def)
  with emits_cross_validate [of config] cross_validate_tables [of config l s issues]
  show ?thesis by blast
qed

text \<open>An empty \<open>default_dir\<close> counts as none; a document without a \<open>logging\<close> table has no
  \<open>log_requests\<close>.\<close>

theorem cross_validation_warns_witness:
  "get_table [(''session'', TDict [(''auto_save'', TBool True), (''default_dir'', TStr '''')])]
      ''logging'' = TDict []
   \<and> get_table [(''session'', TDict [(''auto_save'', TBool True), (''default_dir'', TStr '''')])]
      ''session'' = TDict [(''auto_save'', TBool True), (''default_dir'', TStr '''')]
   \<and> cross_validate [(''session'', TDict [(''auto_save'', TBool True), (''default_dir'', TStr '''')])] [] =
       Inr [\<lparr>level = WARNING, path = ''session'',
             message = [Lit ''auto_save is true but no default_dir specified'']\<rparr>]"
proof -
  let ?c = "[(''session'', TDict [(''auto_save'', TBool True), (''default_dir'', TStr '''')])]"
  have l: "get_table ?c ''logging'' = TDict []"
    by (simp add: get_table_def)
  have s: "get_table ?c ''session'' = TDict [(''auto_save'', TBool True), (''default_dir'', TStr '''')]"
    by (simp add: get_table_def)
  from cross_validation_warns [of ?c "[]" "[(''auto_save'', TBool True), (''default_dir'', TStr '''')]" "[]"]
    l s
  show ?thesis by (simp add: truthy_or_false_def)
qed

subsection \<open>C7: the dangerous-fragment scan\<close>



subsection \<open>C8: the order of the issues\<close>

text \<open>
  C8. When \<open>validate_file\<close> returns for a parsed document, its issue list is the
  warnings of the structural scan, then what each of the fourteen section statements
  appends on its own, in the order api, repl, logging, tools, session, ui, response,
  network, security, debug, aliases, models, prompts, features, then what
  cross-validation appends. The section and cross-validation parts do not depend on the
  order of the keys: a document with the same entries in another order gets the same
  verdict and the same parts after its own structural warnings.
\<close>

theorem validate_file_issue_order:
  assumes "validate_file spm p (Loaded config) = Inr (ok, issues)"
  shows "\<exists>structural sections cross.
      validate_structure config [] = Inr structural
    \<and> list_all2 (\<lambda>step part. step [] = Inr part)
        [check_item (TDict config) ''api'' validate_api,
         check_item (TDict config) ''repl'' validate_repl,
         check_item (TDict config) ''logging'' (validate_logging spm),
         check_item (TDict config) ''tools'' (validate_tools spm),
         check_item (TDict config) ''session'' validate_session,
         check_item (TDict config) ''ui'' validate_ui,
         check_item (TDict config) ''response'' validate_response,
         check_item (TDict config) ''network'' validate_network,
         check_item (TDict config) ''security'' validate_security,
         check_item (TDict config) ''debug'' validate_debug,
         check_item (TDict config) ''aliases'' validate_aliases,
         check_item (TDict config) ''models'' validate_models,
         check_item (TDict config) ''prompts'' validate_prompts,
         check_item (TDict config) ''features'' validate_features] sections
    \<and> cross_validate config [] = Inr cross
    \<and> issues = structural @ concat sections @ cross
    \<and> (\<forall>config'. map_of config' = map_of config \<longrightarrow>
         (\<exists>structural'. validate_structure config' [] = Inr structural'
            \<and> validate_file spm p (Loaded config') =
                Inr (ok, structural' @ concat sections @ cross)))"
proof -
  let ?S = "\<lambda>c. map unknown_table_warning (filter (\<lambda>k. k \<notin> valid_tables) (map fst c))"
  let ?fs = "section_steps spm config @ [cross_validate config]"
  have efs: "list_all (emits located) ?fs"
    by (rule emits_steps)
  from assms obtain rest where rest: "do_all ?fs [] = Inr rest"
    and ok: "ok = (\<not> has_errors rest)" and issues: "issues = ?S config @ rest"
    by (auto simp: validate_file_Loaded split: sum.splits)
  from do_all_parts [OF efs rest] obtain parts
    where parts: "list_all2 (\<lambda>f part. f [] = Inr part) ?fs parts" and cat: "rest = concat parts"
    by blast
  from parts obtain sections cs where split: "parts = sections @ cs"
    and sections: "list_all2 (\<lambda>f part. f [] = Inr part) (section_steps spm config) sections"
    and cs: "list_all2 (\<lambda>f part. f [] = Inr part) [cross_validate config] cs"
    by (auto simp: list_all2_append1)
  from cs obtain cross where cross: "cs = [cross]" "cross_validate config [] = Inr cross"
    by (auto simp: list_all2_Cons1)
  have other: "\<exists>structural'. validate_structure config' [] = Inr structural'
      \<and> validate_file spm p (Loaded config') = Inr (ok, structural' @ concat sections @ cross)"
    if "map_of config' = map_of config" for config'
  proof -
    have "section_steps spm config' = section_steps spm config"
      by (rule section_steps_cong) (simp add: that)
    moreover have "cross_validate config' = cross_validate config"
      by (rule cross_validate_cong) (simp add: that)
    ultimately have "section_steps spm config' @ [cross_validate config'] = ?fs"
      by simp
    with rest ok cat split cross show ?thesis
      by (simp add: validate_file_Loaded validate_structure_eq)
  qed
  have "validate_structure config [] = Inr (?S config)"
    by (simp add: validate_structure_eq)
  moreover have "issues = ?S config @ concat sections @ cross"
    using issues cat split cross by simp
  ultimately show ?thesis
    using sections cross(2) other unfolding section_steps_def by blast
qed

text \<open>
  A document that lists \<open>session\<close> before \<open>api\<close> and ends with an unknown key: the
  unknown-key warning comes first, the error of \<open>api\<close> before the cross-validation
  warning for \<open>session\<close>, and the reversed document gets the same list.
\<close>

theorem validate_file_issue_order_witness:
  "validate_file ascii_size_match ''config.toml''
     (Loaded [(''session'', TDict [(''auto_save'', TBool True)]),
              (''api'', TDict [(''timeout'', TInt 0)]),
              (''zzz'', TInt 1)]) =
     Inr (False,
       [unknown_table_warning ''zzz'',
        \<lparr>level = ERROR, path = ''api.timeout'', message =
           [Lit ''Must be between '', Hole (TInt 1), Lit '' and '', Hole (TInt 300)]\<rparr>,
        \<lparr>level = WARNING, path = ''session'',
          message = [Lit ''auto_save is true but no default_dir specified'']\<rparr>])
   \<and> validate_file ascii_size_match ''config.toml''
     (Loaded [(''zzz'', TInt 1),
              (''api'', TDict [(''timeout'', TInt 0)]),
              (''session'', TDict [(''auto_save'', TBool True)])]) =
     Inr (False,
       [unknown_table_warning ''zzz'',
        \<lparr>level = ERROR, path = ''api.timeout'', message =
           [Lit ''Must be between '', Hole (TInt 1), Lit '' and '', Hole (TInt 300)]\<rparr>,
        \<lparr>level = WARNING, path = ''session'',
          message = [Lit ''auto_save is true but no default_dir specified'']\<rparr>])"
proof -
  let ?c = "[(''session'', TDict [(''auto_save'', TBool True)]),
             (''api'', TDict [(''timeout'', TInt 0)]), (''zzz'', TInt 1)]"
  let ?c' = "[(''zzz'', TInt 1), (''api'', TDict [(''timeout'', TInt 0)]),
              (''session'', TDict [(''auto_save'', TBool True)])]"
  let ?e = "\<lparr>level = ERROR, path = ''api.timeout'', message =
           [Lit ''Must be between '', Hole (TInt 1), Lit '' and '', Hole (TInt 300)]\<rparr>"
  let ?w = "\<lparr>level = WARNING, path = ''session'',
          message = [Lit ''auto_save is true but no default_dir specified'']\<rparr>"
  have h: "validate_file ascii_size_match ''config.toml'' (Loaded ?c) =
      Inr (False, [unknown_table_warning ''zzz'', ?e, ?w])"
    by (simp add: run_defs validate_api_def validate_session_def unknown_table_warning_def)
  have same: "map_of ?c' = map_of ?c"
    by (auto simp: fun_eq_iff)
  have s: "validate_structure ?c [] = Inr [unknown_table_warning ''zzz'']"
    "validate_structure ?c' [] = Inr [unknown_table_warning ''zzz'']"
    by (simp_all add: validate_structure_eq valid_tables_def)
  from validate_file_issue_order [OF h] obtain structural sections cross
    where 1: "validate_structure ?c [] = Inr structural"
      and 2: "[unknown_table_warning ''zzz'', ?e, ?w] = structural @ concat sections @ cross"
      and 3: "\<forall>config'. map_of config' = map_of ?c \<longrightarrow>
         (\<exists>structural'. validate_structure config' [] = Inr structural'
            \<and> validate_file ascii_size_match ''config.toml'' (Loaded config') =
                Inr (False, structural' @ concat sections @ cross))"
    by blast
  from 1 s(1) have structural: "structural = [unknown_table_warning ''zzz'']" by simp
  from 3 same obtain structural'
    where 4: "validate_structure ?c' [] = Inr structural'"
      and 5: "validate_file ascii_size_match ''config.toml'' (Loaded ?c') =
        Inr (False, structural' @ concat sections @ cross)"
    by blast
  from 4 s(2) have "structural' = [unknown_table_warning ''zzz'']" by simp
  with 5 2 structural
  have "validate_file ascii_size_match ''config.toml'' (Loaded ?c') =
      Inr (False, [unknown_table_warning ''zzz'', ?e, ?w])"
    by simp
  with h show ?thesis by blast
qed

subsection \<open>C9: the schema dump\<close>




subsection \<open>C10: booleans in the numeric range checks\<close>

text \<open>
  C10. The integer and the float range check take a boolean for the integer it is in
  Python, 1 for true and 0 for false, and compare that with the bounds: the result is
  that of the check on the integer. So \<open>api.timeout = true\<close> produces no issue, 1 being
  within 1 and 300.
\<close>

theorem boolean_is_numeric:
  "validate_integer_range p (TBool b) lo hi =
     validate_integer_range p (TInt (if b then 1 else 0)) lo hi
   \<and> validate_float_range q (TBool b) flo fhi =
       validate_float_range q (TInt (if b then 1 else 0)) flo fhi
   \<and> validate_file spm cp (Loaded [(''api'', TDict [(''timeout'', TBool True)])]) = Inr (True, [])"
  by (simp add: run_defs validate_api_def)

text \<open>False is 0: below the bounds of \<open>api.timeout\<close> and of \<open>api.retry_delay\<close>, and reported
  as out of range, not as a value of the wrong type.\<close>

theorem boolean_is_numeric_witness:
  "validate_integer_range ''api.timeout'' (TBool True) 1 300 [] = Inr []
   \<and> validate_integer_range ''api.timeout'' (TBool False) 1 300 [] =
       Inr [\<lparr>level = ERROR, path = ''api.timeout'', message =
           [Lit ''Must be between '', Hole (TInt 1), Lit '' and '', Hole (TInt 300)]\<rparr>]
   \<and> validate_float_range ''api.retry_delay'' (TBool True) float_0_1 (Finite 60) [] = Inr []
   \<and> validate_float_range ''api.retry_delay'' (TBool False) float_0_1 (Finite 60) [] =
       Inr [\<lparr>level = ERROR, path = ''api.retry_delay'', message =
           [Lit ''Must be between '', Hole (TFloat float_0_1), Lit '' and '',
            Hole (TFloat (Finite 60))]\<rparr>]"
  using
    boolean_is_numeric [of "''api.timeout''" True 1 300 "''api.retry_delay''" float_0_1 "Finite 60"
      ascii_size_match "''config.toml''"]
    boolean_is_numeric [of "''api.timeout''" False 1 300 "''api.retry_delay''" float_0_1 "Finite 60"
      ascii_size_match "''config.toml''"]
  by (simp add: validate_integer_range_def validate_float_range_def add_error_def skip_def
      float_0_1_def)

end
